theory Spec2Isabelle
  imports Main
begin

section \<open>Route handlers of starlite/handlers.py\<close>

text \<open>
  The module defines \<open>BaseRouteHandler\<close> and its subclasses \<open>HTTPRouteHandler\<close>,
  \<open>WebsocketRouteHandler\<close> and \<open>ASGIRouteHandler\<close>. A handler resolves guards,
  dependencies, response headers, the response class and the request hooks by walking
  its owners, validates the signature of the function it wraps, and turns the value the
  function returns into a response.

  Python objects whose inside the module never looks at (guards, providers, header
  values, template contexts, iterators, plain data) are values of type variables:
  \<open>'g\<close> for guards, \<open>'p\<close> for providers (compared with \<open>==\<close>, here HOL equality),
  \<open>'o\<close> for every other opaque object. Exceptions are values of \<open>error\<close>, carried
  in the left summand of the result. Attributes a method assigns are returned in an
  updated handler record. Awaiting an awaitable is modelled by its awaited value.
\<close>

subsection \<open>Exceptions\<close>

datatype error =
    ImproperlyConfiguredException string
  | ValidationException string
  | InternalServerException string
  | RuntimeError string
  | NameError string

subsection \<open>Owners and handlers\<close>

text \<open>
  A hook found on a class is bound by Python when it is read through an instance;
  \<open>ismethod\<close> is true of \<open>Method f\<close> and its \<open>__func__\<close> is \<open>f\<close>.
\<close>

datatype 'f hook = Function 'f | Method 'f

datatype 'o ResponseHeader = ResponseHeader (header_value: 'o)

datatype response_class = Response | ResponseSubclass string

datatype MediaType = JSON | HTML | TEXT

datatype media = MediaEnum MediaType | MediaStr string

datatype 'o http_response =
    RedirectResponse "(string \<times> 'o) list" int string
  | FileResponse string "(string \<times> 'o) list" 'o
  | StreamingResponse 'o int string "(string \<times> 'o) list"
  | TemplateResponse 'o string 'o int "(string \<times> 'o) list"
  | ClassResponse response_class "(string \<times> 'o) list" int "'o list + 'o" string "'o option"
  | NativeResponse 'o

text \<open>
  A Controller or Router, as far as the handlers read it: the overridable attributes and
  the owner. The owner chain of a value of this type is finite, which is the invariant
  the application assembly keeps (an owner is set once, when a node is attached to its
  parent), so the walk of \<open>ownership_layers\<close> ends.
\<close>

datatype ('g, 'p, 'o) layer = Layer
  (layer_guards: "'g list option")
  (layer_dependencies: "(string \<times> 'p) list option")
  (layer_response_headers: "(string \<times> 'o ResponseHeader) list option")
  (layer_response_class: "response_class option")
  (layer_before_request: "'o hook option")
  (layer_after_request: "('o http_response \<Rightarrow> 'o http_response) hook option")
  (layer_owner: "('g, 'p, 'o) layer option")

text \<open>
  The signature of the wrapped function, as \<open>inspect.Signature\<close> gives it: the
  parameter names and the return annotation. For an annotation that is a class,
  \<open>issubclass\<close> against \<open>Redirect\<close> and against \<open>File\<close> answers a boolean or raises
  \<open>TypeError\<close> (\<open>None\<close> here).
\<close>

datatype annotation =
    SignatureEmpty
  | NoneAnnotation
  | ClassAnnotation (issubclass_Redirect: "bool option") (issubclass_File: "bool option")
  | OtherAnnotation

record signature =
  parameters :: "string list"
  return_annotation :: annotation

text \<open>
  The slots of \<open>BaseRouteHandler\<close> that the methods below read or assign (\<open>paths\<close> and
  \<open>opt\<close> are stored and never read here). A dict is an association list in insertion
  order. The placeholder \<open>_empty\<close> of a memoized slot is \<open>None\<close>, a resolved value
  \<open>v\<close> is \<open>Some v\<close>.
\<close>

record ('g, 'p, 'o) BaseRouteHandler =
  dependencies :: "(string \<times> 'p) list option"
  guards :: "'g list option"
  fn :: "signature option"
  owner :: "('g, 'p, 'o) layer option"
  resolved_dependencies :: "(string \<times> 'p) list option"
  resolved_guards :: "'g list option"
  signature_model :: "'o option"

subsection \<open>ownership_layers\<close>

text \<open>The loop \<open>while cur: value = cur; cur = cur.owner; yield value\<close>, from an owner on.\<close>

fun owner_layers :: "('g, 'p, 'o) layer option \<Rightarrow> ('g, 'p, 'o) layer list" where
  "owner_layers None = []"
| "owner_layers (Some (Layer g d rh rc bq aq ow)) = Layer g d rh rc bq aq ow # owner_layers ow"

text \<open>
  The handler itself is the first layer. A \<open>BaseRouteHandler\<close> has none of the
  attributes that only \<open>HTTPRouteHandler\<close> declares.
\<close>

definition self_layer :: "('g, 'p, 'o, 'z) BaseRouteHandler_scheme \<Rightarrow> ('g, 'p, 'o) layer" where
  "self_layer h = Layer (guards h) (dependencies h) None None None None (owner h)"

definition ownership_layers :: "('g, 'p, 'o, 'z) BaseRouteHandler_scheme \<Rightarrow> ('g, 'p, 'o) layer list" where
  "ownership_layers h = self_layer h # owner_layers (owner h)"

subsection \<open>resolve_guards\<close>

text \<open>
  The loop body \<open>if layer.guards: resolved_guards.extend(layer.guards)\<close>: an absent or
  empty list adds nothing.
\<close>

fun extend_guards :: "'g list \<Rightarrow> ('g, 'p, 'o) layer list \<Rightarrow> 'g list" where
  "extend_guards acc [] = acc"
| "extend_guards acc (l # ls) =
     (case layer_guards l of
        None \<Rightarrow> extend_guards acc ls
      | Some gs \<Rightarrow> if gs = [] then extend_guards acc ls else extend_guards (acc @ gs) ls)"

definition resolve_guards ::
  "('g, 'p, 'o, 'z) BaseRouteHandler_scheme \<Rightarrow> 'g list \<times> ('g, 'p, 'o, 'z) BaseRouteHandler_scheme" where
  "resolve_guards h =
     (case resolved_guards h of
        None \<Rightarrow>
          (let r = rev (extend_guards [] (ownership_layers h))
           in (r, h\<lparr>resolved_guards := Some r\<rparr>))
      | Some r \<Rightarrow> (r, h))"

subsection \<open>resolve_dependencies\<close>

definition provider_defined_message :: "string \<Rightarrow> string \<Rightarrow> string" where
  "provider_defined_message key dependency_key =
     ''Provider for key '' @ key @ '' is already defined under the different key '' @
     dependency_key @ ''. If you wish to override a provider, it must have the same key.''"

text \<open>The loop over \<open>dependencies.items()\<close>: the first entry whose value equals the provider raises.\<close>

fun validate_dependency_is_unique :: "(string \<times> 'p) list \<Rightarrow> string \<Rightarrow> 'p \<Rightarrow> error + unit" where
  "validate_dependency_is_unique [] key provider = Inr ()"
| "validate_dependency_is_unique ((dependency_key, val) # rest) key provider =
     (if provider = val
      then Inl (ImproperlyConfiguredException (provider_defined_message key dependency_key))
      else validate_dependency_is_unique rest key provider)"

text \<open>
  The inner loop over the items of one layer. \<open>dependencies[key] = value\<close> for a key
  that is not in the dict puts the entry last.
\<close>

fun merge_layer_dependencies ::
  "(string \<times> 'p) list \<Rightarrow> (string \<times> 'p) list \<Rightarrow> error + (string \<times> 'p) list" where
  "merge_layer_dependencies deps [] = Inr deps"
| "merge_layer_dependencies deps ((key, val) # items) =
     (if key \<in> set (map fst deps) then merge_layer_dependencies deps items
      else (case validate_dependency_is_unique deps key val of
              Inl e \<Rightarrow> Inl e
            | Inr _ \<Rightarrow> merge_layer_dependencies (deps @ [(key, val)]) items))"

text \<open>The outer loop over the layers; \<open>layer.dependencies or {}\<close> reads an absent dict as empty.\<close>

fun merge_dependencies ::
  "(string \<times> 'p) list \<Rightarrow> ('g, 'p, 'o) layer list \<Rightarrow> error + (string \<times> 'p) list" where
  "merge_dependencies deps [] = Inr deps"
| "merge_dependencies deps (l # ls) =
     (case merge_layer_dependencies deps (case layer_dependencies l of None \<Rightarrow> [] | Some d \<Rightarrow> d) of
        Inl e \<Rightarrow> Inl e
      | Inr deps' \<Rightarrow> merge_dependencies deps' ls)"

definition resolve_dependencies ::
  "('g, 'p, 'o, 'z) BaseRouteHandler_scheme \<Rightarrow>
   (error + (string \<times> 'p) list) \<times> ('g, 'p, 'o, 'z) BaseRouteHandler_scheme" where
  "resolve_dependencies h =
     (if signature_model h = None
      then (Inl (RuntimeError
             ''resolve_dependencies cannot be called before a signature model has been generated''), h)
      else (case resolved_dependencies h of
              None \<Rightarrow>
                (case merge_dependencies [] (ownership_layers h) of
                   Inl e \<Rightarrow> (Inl e, h)
                 | Inr d \<Rightarrow> (Inr d, h\<lparr>resolved_dependencies := Some d\<rparr>))
            | Some d \<Rightarrow> (Inr d, h)))"

subsection \<open>HTTPRouteHandler\<close>

text \<open>
  Modelled from the spec: \<open>starlite.enums\<close> is not part of the source given. \<open>HttpMethod\<close>
  is the enumeration of the verbs GET, POST, PUT, PATCH and DELETE that the spec lists;
  its members are strings (the source compares a stored string with \<open>HttpMethod.POST\<close>
  to find the default status code, and tests \<open>"GET" in self.http_methods\<close>), so a member
  equals its value under \<open>==\<close>. \<open>MediaType\<close> has the JSON, HTML and plain-text members the
  spec names, with their MIME names as values.
\<close>

datatype HttpMethod = GET | POST | PUT | PATCH | DELETE

fun HttpMethod_value :: "HttpMethod \<Rightarrow> string" where
  "HttpMethod_value GET = ''GET''"
| "HttpMethod_value POST = ''POST''"
| "HttpMethod_value PUT = ''PUT''"
| "HttpMethod_value PATCH = ''PATCH''"
| "HttpMethod_value DELETE = ''DELETE''"

fun MediaType_value :: "MediaType \<Rightarrow> string" where
  "MediaType_value JSON = ''application/json''"
| "MediaType_value HTML = ''text/html''"
| "MediaType_value TEXT = ''text/plain''"

text \<open>A method is a member of \<open>HttpMethod\<close> or a plain string; \<open>method_str\<close> is its string.\<close>

datatype method_value = Member HttpMethod | Str string

fun method_str :: "method_value \<Rightarrow> string" where
  "method_str (Member e) = HttpMethod_value e"
| "method_str (Str s) = s"

text \<open>Python's \<open>==\<close> on two methods compares the strings.\<close>

definition method_eq :: "method_value \<Rightarrow> method_value \<Rightarrow> bool" where
  "method_eq a b = (method_str a = method_str b)"

text \<open>The \<open>http_method\<close> argument (\<open>None\<close>, one method, or a list) and the stored attribute.\<close>

datatype http_method_arg = NoMethod | Single method_value | Several "method_value list"

datatype http_method_attr = Scalar method_value | Listed "string list"

definition upper_char :: "char \<Rightarrow> char" where
  "upper_char c =
     (let n = (of_char c :: nat) in if 97 \<le> n \<and> n \<le> 122 then char_of (n - 32) else c)"

definition upper :: "string \<Rightarrow> string" where
  "upper s = map upper_char s"

text \<open>
  Lines 215 to 222 of \<open>__init__\<close>. \<open>not http_method\<close> holds of \<open>None\<close>, of the empty list
  and of the empty string. A list of length one stores its element as it is; a longer list
  stores the upper-cased strings; a scalar member stores its value.
\<close>

fun init_http_method :: "http_method_arg \<Rightarrow> error + http_method_attr" where
  "init_http_method NoMethod = Inl (ImproperlyConfiguredException ''An http_method kwarg is required'')"
| "init_http_method (Several []) = Inl (ImproperlyConfiguredException ''An http_method kwarg is required'')"
| "init_http_method (Several [m]) = Inr (Scalar m)"
| "init_http_method (Several ms) = Inr (Listed (map (\<lambda>v. upper (method_str v)) ms))"
| "init_http_method (Single m) =
     (if method_str m = [] then Inl (ImproperlyConfiguredException ''An http_method kwarg is required'')
      else Inr (Scalar (case m of Member e \<Rightarrow> Str (HttpMethod_value e) | Str s \<Rightarrow> Str s)))"

text \<open>
  Lines 223 to 232. \<open>if status_code:\<close> is false of \<open>None\<close> and of \<open>0\<close>.
\<close>

definition init_status_code :: "int option \<Rightarrow> http_method_attr \<Rightarrow> int" where
  "init_status_code status_code hm =
     (case status_code of
        Some c \<Rightarrow>
          if c \<noteq> 0 then c
          else (case hm of
                  Listed _ \<Rightarrow> 200
                | Scalar m \<Rightarrow>
                    if method_eq m (Member POST) then 201
                    else if method_eq m (Member DELETE) then 204 else 200)
      | None \<Rightarrow>
          (case hm of
             Listed _ \<Rightarrow> 200
           | Scalar m \<Rightarrow>
               if method_eq m (Member POST) then 201
               else if method_eq m (Member DELETE) then 204 else 200))"

text \<open>
  The slots of \<open>HTTPRouteHandler\<close> that the methods read or assign; the OpenAPI
  attributes are stored by \<open>__init__\<close> and read nowhere in the module.
\<close>

record ('g, 'p, 'o) HTTPRouteHandler = "('g, 'p, 'o) BaseRouteHandler" +
  http_method :: http_method_attr
  status_code :: int
  after_request :: "('o http_response \<Rightarrow> 'o http_response) hook option"
  background_tasks :: "'o option"
  before_request :: "'o hook option"
  media_type :: media
  response_class :: "response_class option"
  response_headers :: "(string \<times> 'o ResponseHeader) list option"
  resolved_headers :: "(string \<times> 'o ResponseHeader) list option"
  resolved_response_class :: "response_class option"
  resolved_after_request :: "('o http_response \<Rightarrow> 'o http_response) option option"
  resolved_before_request :: "'o option option"

text \<open>\<open>HTTPRouteHandler.__init__\<close>, with the keyword arguments in the order of the source.\<close>

definition HTTPRouteHandler_init ::
  "http_method_arg \<Rightarrow> ('o http_response \<Rightarrow> 'o http_response) hook option \<Rightarrow> 'o option \<Rightarrow>
   'o hook option \<Rightarrow> (string \<times> 'p) list option \<Rightarrow> 'g list option \<Rightarrow> media \<Rightarrow>
   response_class option \<Rightarrow> (string \<times> 'o ResponseHeader) list option \<Rightarrow> int option \<Rightarrow>
   error + ('g, 'p, 'o) HTTPRouteHandler" where
  "HTTPRouteHandler_init http_method_kw after_request_kw background_tasks_kw before_request_kw
     dependencies_kw guards_kw media_type_kw response_class_kw response_headers_kw status_code_kw =
     (case init_http_method http_method_kw of
        Inl e \<Rightarrow> Inl e
      | Inr hm \<Rightarrow>
          Inr \<lparr> dependencies = dependencies_kw, guards = guards_kw, fn = None, owner = None,
                resolved_dependencies = None, resolved_guards = None, signature_model = None,
                http_method = hm, status_code = init_status_code status_code_kw hm,
                after_request = after_request_kw, background_tasks = background_tasks_kw,
                before_request = before_request_kw, media_type = media_type_kw,
                response_class = response_class_kw, response_headers = response_headers_kw,
                resolved_headers = None, resolved_response_class = None,
                resolved_after_request = None, resolved_before_request = None \<rparr>)"

text \<open>The property \<open>http_methods\<close>.\<close>

definition http_methods :: "('g, 'p, 'o, 'z) HTTPRouteHandler_scheme \<Rightarrow> method_value list" where
  "http_methods h = (case http_method h of Listed ss \<Rightarrow> map Str ss | Scalar m \<Rightarrow> [m])"

subsection \<open>The resolvers of HTTPRouteHandler\<close>

text \<open>
  \<open>HTTPRouteHandler.ownership_layers\<close> is the walk of the base class; the handler, as
  first layer, now has the attributes an HTTP handler declares.
\<close>

definition http_self_layer :: "('g, 'p, 'o, 'z) HTTPRouteHandler_scheme \<Rightarrow> ('g, 'p, 'o) layer" where
  "http_self_layer h =
     Layer (guards h) (dependencies h) (response_headers h) (response_class h)
       (before_request h) (after_request h) (owner h)"

definition http_ownership_layers ::
  "('g, 'p, 'o, 'z) HTTPRouteHandler_scheme \<Rightarrow> ('g, 'p, 'o) layer list" where
  "http_ownership_layers h = http_self_layer h # owner_layers (owner h)"

text \<open>The loop of \<open>resolve_response_class\<close>, which starts from \<open>Response\<close> and breaks at the first class.\<close>

fun closest_response_class :: "('g, 'p, 'o) layer list \<Rightarrow> response_class" where
  "closest_response_class [] = Response"
| "closest_response_class (l # ls) =
     (case layer_response_class l of Some c \<Rightarrow> c | None \<Rightarrow> closest_response_class ls)"

definition resolve_response_class ::
  "('g, 'p, 'o, 'z) HTTPRouteHandler_scheme \<Rightarrow>
   response_class \<times> ('g, 'p, 'o, 'z) HTTPRouteHandler_scheme" where
  "resolve_response_class h =
     (case resolved_response_class h of
        None \<Rightarrow>
          (let c = closest_response_class (http_ownership_layers h)
           in (c, h\<lparr>resolved_response_class := Some c\<rparr>))
      | Some c \<Rightarrow> (c, h))"

text \<open>The two loops of \<open>resolve_response_headers\<close>: a name already in the dict is kept.\<close>

fun merge_layer_headers ::
  "(string \<times> 'v) list \<Rightarrow> (string \<times> 'v) list \<Rightarrow> (string \<times> 'v) list" where
  "merge_layer_headers headers [] = headers"
| "merge_layer_headers headers ((key, val) # items) =
     (if key \<in> set (map fst headers) then merge_layer_headers headers items
      else merge_layer_headers (headers @ [(key, val)]) items)"

fun merge_headers ::
  "(string \<times> 'o ResponseHeader) list \<Rightarrow> ('g, 'p, 'o) layer list \<Rightarrow>
   (string \<times> 'o ResponseHeader) list" where
  "merge_headers headers [] = headers"
| "merge_headers headers (l # ls) =
     merge_headers
       (merge_layer_headers headers (case layer_response_headers l of None \<Rightarrow> [] | Some d \<Rightarrow> d)) ls"

definition resolve_response_headers ::
  "('g, 'p, 'o, 'z) HTTPRouteHandler_scheme \<Rightarrow>
   (string \<times> 'o ResponseHeader) list \<times> ('g, 'p, 'o, 'z) HTTPRouteHandler_scheme" where
  "resolve_response_headers h =
     (case resolved_headers h of
        None \<Rightarrow>
          (let hs = merge_headers [] (http_ownership_layers h)
           in (hs, h\<lparr>resolved_headers := Some hs\<rparr>))
      | Some hs \<Rightarrow> (hs, h))"

text \<open>
  The loops of \<open>resolve_before_request\<close> and \<open>resolve_after_request\<close> break at the first
  layer that has a hook; a bound method is then replaced by its \<open>__func__\<close>, so the
  memoized slot holds a plain function or \<open>None\<close>.
\<close>

fun closest_before_request :: "('g, 'p, 'o) layer list \<Rightarrow> 'o hook option" where
  "closest_before_request [] = None"
| "closest_before_request (l # ls) =
     (case layer_before_request l of Some f \<Rightarrow> Some f | None \<Rightarrow> closest_before_request ls)"

fun closest_after_request ::
  "('g, 'p, 'o) layer list \<Rightarrow> ('o http_response \<Rightarrow> 'o http_response) hook option" where
  "closest_after_request [] = None"
| "closest_after_request (l # ls) =
     (case layer_after_request l of Some f \<Rightarrow> Some f | None \<Rightarrow> closest_after_request ls)"

fun unbind :: "'f hook option \<Rightarrow> 'f option" where
  "unbind None = None"
| "unbind (Some (Method f)) = Some f"
| "unbind (Some (Function f)) = Some f"

definition resolve_before_request ::
  "('g, 'p, 'o, 'z) HTTPRouteHandler_scheme \<Rightarrow>
   'o option \<times> ('g, 'p, 'o, 'z) HTTPRouteHandler_scheme" where
  "resolve_before_request h =
     (case resolved_before_request h of
        None \<Rightarrow>
          (let r = unbind (closest_before_request (http_ownership_layers h))
           in (r, h\<lparr>resolved_before_request := Some r\<rparr>))
      | Some r \<Rightarrow> (r, h))"

definition resolve_after_request ::
  "('g, 'p, 'o, 'z) HTTPRouteHandler_scheme \<Rightarrow>
   ('o http_response \<Rightarrow> 'o http_response) option \<times> ('g, 'p, 'o, 'z) HTTPRouteHandler_scheme" where
  "resolve_after_request h =
     (case resolved_after_request h of
        None \<Rightarrow>
          (let r = unbind (closest_after_request (http_ownership_layers h))
           in (r, h\<lparr>resolved_after_request := Some r\<rparr>))
      | Some r \<Rightarrow> (r, h))"

subsection \<open>validate_handler_function\<close>

text \<open>
  Modelled from the spec: \<open>REDIRECT_STATUS_CODES\<close> of \<open>starlite.constants\<close> is not part of
  the source given; the spec lists the valid redirect codes.
\<close>

definition REDIRECT_STATUS_CODES :: "int list" where
  "REDIRECT_STATUS_CODES = [301, 302, 303, 307, 308]"

definition media_str :: "media \<Rightarrow> string" where
  "media_str m = (case m of MediaEnum e \<Rightarrow> MediaType_value e | MediaStr s \<Rightarrow> s)"

text \<open>
  The body of \<open>with suppress(TypeError)\<close> for an annotation that is a class: a
  \<open>TypeError\<close> of \<open>issubclass\<close> leaves the block, a \<open>ValidationException\<close> is not
  suppressed, and a file annotation with a JSON or HTML media type sets the media type to
  plain text.
\<close>

definition validate_return_class ::
  "('g, 'p, 'o, 'z) HTTPRouteHandler_scheme \<Rightarrow> bool option \<Rightarrow> bool option \<Rightarrow>
   error + ('g, 'p, 'o, 'z) HTTPRouteHandler_scheme" where
  "validate_return_class h sub_redirect sub_file =
     (case sub_redirect of
        None \<Rightarrow> Inr h
      | Some is_redirect \<Rightarrow>
          if is_redirect \<and> status_code h \<notin> set REDIRECT_STATUS_CODES
          then Inl (ValidationException
                 ''Redirect responses should have one of the following status codes: 301, 302, 303, 307, 308'')
          else (case sub_file of
                  None \<Rightarrow> Inr h
                | Some is_file \<Rightarrow>
                    if is_file \<and> media_str (media_type h) \<in> {MediaType_value JSON, MediaType_value HTML}
                    then Inr (h\<lparr>media_type := MediaEnum TEXT\<rparr>)
                    else Inr h))"

definition fn_not_set :: error where
  "fn_not_set =
     ImproperlyConfiguredException ''Cannot call validate_handler_function without first setting self.fn''"

definition http_validate_handler_function ::
  "('g, 'p, 'o, 'z) HTTPRouteHandler_scheme \<Rightarrow> error + ('g, 'p, 'o, 'z) HTTPRouteHandler_scheme" where
  "http_validate_handler_function h =
     (case fn h of
        None \<Rightarrow> Inl fn_not_set
      | Some sg \<Rightarrow>
          if return_annotation sg = SignatureEmpty
          then Inl (ValidationException
                 (''A return value of a route handler function should be type annotated.'' @
                  ''If your function doesn't return a value or returns None, annotate it as returning None.''))
          else (case (case return_annotation sg of
                        ClassAnnotation r f \<Rightarrow> validate_return_class h r f
                      | _ \<Rightarrow> Inr h) of
                  Inl e \<Rightarrow> Inl e
                | Inr h' \<Rightarrow>
                    if ''socket'' \<in> set (parameters sg)
                    then Inl (ImproperlyConfiguredException
                           ''The 'socket' kwarg is not supported with http handlers'')
                    else if ''data'' \<in> set (parameters sg) \<and>
                            ''GET'' \<in> set (map method_str (http_methods h'))
                    then Inl (ImproperlyConfiguredException
                           ([CHR 0x27] @ ''data' kwarg is unsupported for 'GET' request handlers''))
                    else Inr h'))"

text \<open>\<open>WebsocketRouteHandler.validate_handler_function\<close>; the handler is unchanged, so the result is \<open>unit\<close>.\<close>

definition websocket_validate_handler_function ::
  "('g, 'p, 'o, 'z) BaseRouteHandler_scheme \<Rightarrow> error + unit" where
  "websocket_validate_handler_function h =
     (case fn h of
        None \<Rightarrow> Inl fn_not_set
      | Some sg \<Rightarrow>
          if return_annotation sg \<noteq> NoneAnnotation
          then Inl (ImproperlyConfiguredException
                 (''Websocket handler functions should return '' @ [CHR 0x27] @ ''None'' @ [CHR 0x27]))
          else if ''socket'' \<notin> set (parameters sg)
          then Inl (ImproperlyConfiguredException ''Websocket handlers must set a 'socket' kwarg'')
          else if ''request'' \<in> set (parameters sg)
          then Inl (ImproperlyConfiguredException
                 ''The 'request' kwarg is not supported with websocket handlers'')
          else if ''data'' \<in> set (parameters sg)
          then Inl (ImproperlyConfiguredException
                 ''The 'data' kwarg is not supported with websocket handlers'')
          else Inr ())"

subsection \<open>to_response\<close>

text \<open>
  The value a handler function returned, by the \<open>isinstance\<close> tests of \<open>to_response\<close>:
  a Starlette response, one of the four wrapper kinds of \<open>StarliteType\<close> (with the
  attributes the method reads), another \<open>StarliteType\<close>, a list or tuple, or any
  other value.
\<close>

datatype 'o handler_data =
    ResponseData "'o http_response"
  | RedirectData string
  | FileData 'o
  | StreamData 'o
  | TemplateData string 'o
  | OtherStarliteType 'o
  | SequenceData "'o list"
  | PlainData 'o

record 'o plugin =
  to_dict :: "'o \<Rightarrow> 'o"

text \<open>
  The names bound in the module's global scope when a method runs: the imports (the
  import under \<open>TYPE_CHECKING\<close> is not executed) and the module's own classes and
  aliases. A name that a function never assigns is looked up here and then among the
  builtins, and raises \<open>NameError\<close> when it is in neither; \<open>request\<close> is not a builtin.
\<close>

definition module_names :: "string list" where
  "module_names =
     [''suppress'', ''copy'', ''Enum'', ''Signature'', ''isawaitable'', ''isclass'', ''ismethod'',
      ''TYPE_CHECKING'', ''Any'', ''Dict'', ''Generator'', ''List'', ''Optional'', ''Type'', ''Union'',
      ''cast'', ''validate_arguments'', ''AnyCallable'', ''BackgroundTask'', ''BackgroundTasks'',
      ''HTTPConnection'', ''FileResponse'', ''RedirectResponse'', ''StarletteResponse'',
      ''StreamingResponse'', ''HTTP_200_OK'', ''HTTP_201_CREATED'', ''HTTP_204_NO_CONTENT'',
      ''REDIRECT_STATUS_CODES'', ''Controller'', ''File'', ''Redirect'', ''StarliteType'', ''Stream'',
      ''Template'', ''HttpMethod'', ''MediaType'', ''HTTPException'',
      ''ImproperlyConfiguredException'', ''InternalServerException'', ''ValidationException'',
      ''PluginProtocol'', ''get_plugin_for_value'', ''Provide'', ''Response'', ''TemplateResponse'',
      ''AfterRequestHandler'', ''AsyncAnyCallable'', ''BeforeRequestHandler'', ''Guard'', ''Method'',
      ''ResponseHeader'', ''SignatureModel'', ''normalize_path'', ''_empty'', ''BaseRouteHandler'',
      ''HTTPRouteHandler'', ''route'', ''get'', ''post'', ''put'', ''patch'', ''delete'',
      ''WebsocketRouteHandler'', ''websocket'', ''ASGIRouteHandler'', ''asgi'']"

definition name_error :: "string \<Rightarrow> error" where
  "name_error n = NameError (''name '' @ [CHR 0x27] @ n @ [CHR 0x27] @ '' is not defined'')"

text \<open>
  The branch for a template value reads \<open>request.app.template_engine\<close>. The method has
  no parameter and no local \<open>request\<close>, so the name is looked up in the module;
  \<open>app_template_engine\<close> is what the attribute would hold.
\<close>

definition template_response ::
  "'o option \<Rightarrow> 'o \<Rightarrow> string \<Rightarrow> int \<Rightarrow> (string \<times> 'o) list \<Rightarrow> error + 'o http_response" where
  "template_response app_template_engine context name status headers =
     (if ''request'' \<notin> set module_names then Inl (name_error ''request'')
      else (case app_template_engine of
              Some template_engine \<Rightarrow>
                Inr (TemplateResponse context name template_engine status headers)
            | None \<Rightarrow> Inl (InternalServerException ''Template engine was not initialized in app'')))"

text \<open>
  \<open>to_response\<close>. \<open>get_plugin_for_value\<close> of \<open>starlite.plugins.base\<close> is not part of the
  source given and is a parameter. The result is the response or the exception, with the
  handler after the resolvers have filled their slots.
\<close>

definition to_response ::
  "('o handler_data \<Rightarrow> 'o plugin list \<Rightarrow> 'o plugin option) \<Rightarrow> 'o option \<Rightarrow>
   ('g, 'p, 'o, 'z) HTTPRouteHandler_scheme \<Rightarrow> 'o handler_data \<Rightarrow> 'o plugin list \<Rightarrow>
   (error + 'o http_response) \<times> ('g, 'p, 'o, 'z) HTTPRouteHandler_scheme" where
  "to_response get_plugin_for_value app_template_engine h data plugins =
     (let (after_hook, h1) = resolve_after_request h;
          mt = media_str (media_type h1);
          (resolved, h2) = resolve_response_headers h1;
          headers = map (\<lambda>(k, v). (k, header_value v)) resolved;
          (built, h3) =
            (case data of
               RedirectData path \<Rightarrow> (Inr (RedirectResponse headers (status_code h2) path), h2)
             | FileData d \<Rightarrow> (Inr (FileResponse mt headers d), h2)
             | StreamData iterator \<Rightarrow> (Inr (StreamingResponse iterator (status_code h2) mt headers), h2)
             | TemplateData name context \<Rightarrow>
                 (template_response app_template_engine context name (status_code h2) headers, h2)
             | ResponseData r \<Rightarrow> (Inr r, h2)
             | OtherStarliteType x \<Rightarrow> (Inr (NativeResponse x), h2)
             | SequenceData xs \<Rightarrow>
                 (let content = (case get_plugin_for_value data plugins of
                                   Some plugin \<Rightarrow> map (to_dict plugin) xs
                                 | None \<Rightarrow> xs);
                      (cls, h') = resolve_response_class h2
                  in (Inr (ClassResponse cls headers (status_code h') (Inl content) mt (background_tasks h')), h'))
             | PlainData x \<Rightarrow>
                 (let content = (case get_plugin_for_value data plugins of
                                   Some plugin \<Rightarrow> to_dict plugin x
                                 | None \<Rightarrow> x);
                      (cls, h') = resolve_response_class h2
                  in (Inr (ClassResponse cls headers (status_code h') (Inr content) mt (background_tasks h')), h')))
      in (case built of
            Inl e \<Rightarrow> (Inl e, h3)
          | Inr response \<Rightarrow>
              (Inr (case after_hook of None \<Rightarrow> response | Some f \<Rightarrow> f response), h3)))"

subsection \<open>Equality of stored methods, and example handlers\<close>

text \<open>
  Python's \<open>==\<close> on the stored \<open>http_method\<close>: two scalars compare as methods, two
  lists of strings as lists, a string never equals a list.
\<close>

definition http_method_eq :: "http_method_attr \<Rightarrow> http_method_attr \<Rightarrow> bool" where
  "http_method_eq a b =
     (case (a, b) of
        (Scalar x, Scalar y) \<Rightarrow> method_eq x y
      | (Listed xs, Listed ys) \<Rightarrow> xs = ys
      | _ \<Rightarrow> False)"

text \<open>
  A root layer and a handler it owns, with numbers for guards, providers and opaque
  objects. The handler wraps a function annotated as returning \<open>Redirect\<close> and has
  status code 302.
\<close>

definition root_layer :: "(nat, nat, nat) layer" where
  "root_layer =
     Layer (Some [3, 4]) (Some [(''a'', 2), (''b'', 2)]) (Some [(''x-root'', ResponseHeader 7)])
       None None None None"

definition redirect_handler :: "(nat, nat, nat) HTTPRouteHandler" where
  "redirect_handler =
     \<lparr> dependencies = Some [(''a'', 1)], guards = Some [1, 2],
       fn = Some \<lparr> parameters = [''request''],
                   return_annotation = ClassAnnotation (Some True) (Some False) \<rparr>,
       owner = Some root_layer, resolved_dependencies = None, resolved_guards = None,
       signature_model = Some 0,
       http_method = Scalar (Str ''GET''), status_code = 302, after_request = None,
       background_tasks = None, before_request = None, media_type = MediaEnum JSON,
       response_class = None, response_headers = None, resolved_headers = None,
       resolved_response_class = None, resolved_after_request = None,
       resolved_before_request = None \<rparr>"

text \<open>The same handler with an after-request hook that answers with a response of its own.\<close>

definition hooked_redirect_handler :: "(nat, nat, nat) HTTPRouteHandler" where
  "hooked_redirect_handler =
     redirect_handler\<lparr>after_request := Some (Function (\<lambda>r. NativeResponse 0))\<rparr>"

text \<open>No plugin supports any value.\<close>

definition no_plugin :: "nat handler_data \<Rightarrow> nat plugin list \<Rightarrow> nat plugin option" where
  "no_plugin d ps = None"

text \<open>The handler above with the root's provider for \<open>a\<close> declared again under \<open>b\<close>.\<close>

definition aliased_handler :: "(nat, nat, nat) HTTPRouteHandler" where
  "aliased_handler = redirect_handler\<lparr>dependencies := Some [(''b'', 2)]\<rparr>"

subsection \<open>The declarations of an ownership chain\<close>

text \<open>
  The dependency declarations of a layer, and those of the layers in the order of the
  walk, the handler's first. \<open>map_of\<close> finds the first entry for a name, so
  \<open>map_of (declarations ls) k\<close> is the provider that the layer nearest to the handler
  declares for \<open>k\<close>.
\<close>

definition layer_declarations :: "('g, 'p, 'o) layer \<Rightarrow> (string \<times> 'p) list" where
  "layer_declarations l = (case layer_dependencies l of None \<Rightarrow> [] | Some d \<Rightarrow> d)"

definition declarations :: "('g, 'p, 'o) layer list \<Rightarrow> (string \<times> 'p) list" where
  "declarations ls = concat (map layer_declarations ls)"

section \<open>Properties\<close>

subsection \<open>Guards\<close>

lemma extend_guards_append:
  "extend_guards acc ls =
     acc @ concat (map (\<lambda>l. case layer_guards l of None \<Rightarrow> [] | Some gs \<Rightarrow> gs) ls)"
  by (induction ls arbitrary: acc) (auto split: option.splits)

text \<open>
  What the first call returns: the layers from the root down to the handler, and inside
  each layer the guards in the reverse of the order they were declared in, because the
  whole flattened list is reversed.
\<close>

lemma resolve_guards_fresh:
  "resolved_guards h = None \<Longrightarrow>
   fst (resolve_guards h) =
     concat (map (\<lambda>l. rev (case layer_guards l of None \<Rightarrow> [] | Some gs \<Rightarrow> gs))
       (rev (ownership_layers h)))"
  by (simp add: resolve_guards_def Let_def extend_guards_append rev_concat rev_map comp_def)

text \<open>
  C1. The guards resolved for a handler are the concatenation of the layers' guard lists,
  root first, each layer's guards in their declared order. The source does not do this: a
  handler with guards \<open>[1, 2]\<close> owned by a root with guards \<open>[3, 4]\<close> resolves to
  \<open>[4, 3, 2, 1]\<close>, not to \<open>[3, 4, 1, 2]\<close>.
\<close>

theorem resolve_guards_reverses_within_layer:
  "fst (resolve_guards
     (\<lparr> dependencies = None, guards = Some [1, 2], fn = None,
        owner = Some (Layer (Some [3, 4]) None None None None None None),
        resolved_dependencies = None, resolved_guards = None, signature_model = None \<rparr>
      :: (nat, nat, nat) BaseRouteHandler)) = [4, 3, 2, 1] \<and>
   fst (resolve_guards
     (\<lparr> dependencies = None, guards = Some [1, 2], fn = None,
        owner = Some (Layer (Some [3, 4]) None None None None None None),
        resolved_dependencies = None, resolved_guards = None, signature_model = None \<rparr>
      :: (nat, nat, nat) BaseRouteHandler)) \<noteq> [3, 4, 1, 2]"
  by (simp add: resolve_guards_def ownership_layers_def self_layer_def Let_def)

subsection \<open>Responses\<close>

text \<open>
  C2. For a template value, \<open>to_response\<close> fails with a server-configuration error when
  no template engine is configured and gives a rendered template response otherwise. The
  source does neither: whatever the handler, the template and the engine, the lookup of
  \<open>request\<close> raises \<open>NameError\<close>.
\<close>

theorem to_response_template_name_error:
  "fst (to_response get_plugin_for_value app_template_engine h (TemplateData name context) plugins) =
     Inl (name_error ''request'')"
  by (simp add: to_response_def template_response_def module_names_def Let_def split: prod.splits)

text \<open>
  C10. For a value that is already a response object, \<open>to_response\<close> returns that object:
  headers, status code and media type of the handler are not applied. A resolved
  after-request hook receives the object, and what it returns is the result.
\<close>

theorem to_response_native_unchanged:
  "fst (to_response get_plugin_for_value app_template_engine h (ResponseData r) plugins) =
     Inr (case fst (resolve_after_request h) of None \<Rightarrow> r | Some f \<Rightarrow> f r)"
  by (simp add: to_response_def Let_def split: prod.splits)

subsection \<open>Validation\<close>

text \<open>
  C8. A WebSocket handler with a function set fails validation, with a configuration
  error, exactly when its signature has no parameter \<open>socket\<close>, or has a parameter
  \<open>request\<close> or \<open>data\<close>, or its return annotation is not \<open>None\<close>; it passes exactly when
  it has \<open>socket\<close>, neither \<open>request\<close> nor \<open>data\<close>, and the annotation \<open>None\<close>.
\<close>

theorem websocket_validation:
  assumes "fn h = Some sg"
  shows "((\<exists>msg. websocket_validate_handler_function h = Inl (ImproperlyConfiguredException msg)) \<longleftrightarrow>
           (''socket'' \<notin> set (parameters sg) \<or> ''request'' \<in> set (parameters sg) \<or>
            ''data'' \<in> set (parameters sg) \<or> return_annotation sg \<noteq> NoneAnnotation)) \<and>
         (websocket_validate_handler_function h = Inr () \<longleftrightarrow>
           (''socket'' \<in> set (parameters sg) \<and> ''request'' \<notin> set (parameters sg) \<and>
            ''data'' \<notin> set (parameters sg) \<and> return_annotation sg = NoneAnnotation))"
  using assms by (simp add: websocket_validate_handler_function_def)

theorem websocket_validation_witness:
  "websocket_validate_handler_function
     (\<lparr> dependencies = None, guards = None,
        fn = Some \<lparr> parameters = [''socket''], return_annotation = NoneAnnotation \<rparr>,
        owner = None, resolved_dependencies = None, resolved_guards = None,
        signature_model = None \<rparr> :: (nat, nat, nat) BaseRouteHandler) = Inr () \<and>
   (\<exists>msg. websocket_validate_handler_function
     (\<lparr> dependencies = None, guards = None,
        fn = Some \<lparr> parameters = [''socket'', ''data''], return_annotation = NoneAnnotation \<rparr>,
        owner = None, resolved_dependencies = None, resolved_guards = None,
        signature_model = None \<rparr> :: (nat, nat, nat) BaseRouteHandler) =
      Inl (ImproperlyConfiguredException msg))"
  using websocket_validation
    [of "\<lparr> dependencies = None, guards = None,
        fn = Some \<lparr> parameters = [''socket''], return_annotation = NoneAnnotation \<rparr>,
        owner = None, resolved_dependencies = None, resolved_guards = None,
        signature_model = None \<rparr> :: (nat, nat, nat) BaseRouteHandler"
        "\<lparr> parameters = [''socket''], return_annotation = NoneAnnotation \<rparr>"]
    websocket_validation
    [of "\<lparr> dependencies = None, guards = None,
        fn = Some \<lparr> parameters = [''socket'', ''data''], return_annotation = NoneAnnotation \<rparr>,
        owner = None, resolved_dependencies = None, resolved_guards = None,
        signature_model = None \<rparr> :: (nat, nat, nat) BaseRouteHandler"
        "\<lparr> parameters = [''socket'', ''data''], return_annotation = NoneAnnotation \<rparr>"]
  by simp

subsection \<open>Construction\<close>

text \<open>
  C3. A handler constructed with a list holding one method is the handler constructed with
  that method as a scalar: both constructions succeed, the stored \<open>http_method\<close> values
  are equal under \<open>==\<close> (the list form keeps the element, the scalar form the value of
  an enumeration member), \<open>http_methods\<close> holds the same method strings, the status codes
  are equal, and so is every other attribute. The method is not the empty string, which
  the declared parameter type excludes.
\<close>

theorem single_method_list_equals_scalar:
  assumes "method_str m \<noteq> []"
  shows "\<exists>h1 h2.
     HTTPRouteHandler_init (Several [m]) ar bt br ds gs mt rc rh sc = Inr h1 \<and>
     HTTPRouteHandler_init (Single m) ar bt br ds gs mt rc rh sc = Inr h2 \<and>
     http_method_eq (http_method h1) (http_method h2) \<and>
     map method_str (http_methods h1) = map method_str (http_methods h2) \<and>
     status_code h1 = status_code h2 \<and>
     h1\<lparr>http_method := http_method h2\<rparr> = h2"
  using assms
  by (cases m)
     (simp_all add: HTTPRouteHandler_init_def http_method_eq_def method_eq_def http_methods_def
        init_status_code_def split: option.splits)

theorem single_method_list_equals_scalar_witness:
  "map_sum id status_code
     (HTTPRouteHandler_init (Several [Member POST]) None None None None None (MediaEnum JSON) None None None
        :: error + (nat, nat, nat) HTTPRouteHandler) = Inr 201 \<and>
   map_sum id status_code
     (HTTPRouteHandler_init (Single (Member POST)) None None None None None (MediaEnum JSON) None None None
        :: error + (nat, nat, nat) HTTPRouteHandler) = Inr 201 \<and>
   map_sum id http_method
     (HTTPRouteHandler_init (Several [Member POST]) None None None None None (MediaEnum JSON) None None None
        :: error + (nat, nat, nat) HTTPRouteHandler) = Inr (Scalar (Member POST)) \<and>
   map_sum id http_method
     (HTTPRouteHandler_init (Single (Member POST)) None None None None None (MediaEnum JSON) None None None
        :: error + (nat, nat, nat) HTTPRouteHandler) = Inr (Scalar (Str ''POST'')) \<and>
   http_method_eq (Scalar (Member POST)) (Scalar (Str ''POST''))"
proof -
  have ne: "method_str (Member POST) \<noteq> []" by simp
  from single_method_list_equals_scalar [OF ne, of None None None None None "MediaEnum JSON" None None None]
  obtain h1 h2 :: "(nat, nat, nat) HTTPRouteHandler" where
    "HTTPRouteHandler_init (Several [Member POST]) None None None None None (MediaEnum JSON) None None None = Inr h1"
    "HTTPRouteHandler_init (Single (Member POST)) None None None None None (MediaEnum JSON) None None None = Inr h2"
    "http_method_eq (http_method h1) (http_method h2)"
    by blast
  then show ?thesis
    by (auto simp add: HTTPRouteHandler_init_def init_status_code_def method_eq_def)
qed

text \<open>
  C6, as stated, says that an explicit status code is always used. It is not when the code
  is \<open>0\<close>, which \<open>if status_code:\<close> reads as absent: a POST handler given \<open>0\<close> gets 201.
\<close>

theorem explicit_zero_status_code_counterexample:
  "map_sum id status_code
     (HTTPRouteHandler_init (Single (Member POST)) None None None None None (MediaEnum JSON) None None (Some 0)
        :: error + (nat, nat, nat) HTTPRouteHandler) = Inr 201"
  by (simp add: HTTPRouteHandler_init_def init_status_code_def method_eq_def)

text \<open>
  C6, amended. A handler constructed without a status code has 200 for GET, PUT and PATCH,
  201 for POST and 204 for DELETE; a status code that is given and is not \<open>0\<close> is used,
  whatever the method.
\<close>

theorem default_status_code:
  assumes "HTTPRouteHandler_init hm ar bt br ds gs mt rc rh sc = Inr h"
  shows "(sc = None \<and> http_method h = Scalar m \<and> method_str m \<in> {''GET'', ''PUT'', ''PATCH''}
            \<longrightarrow> status_code h = 200) \<and>
         (sc = None \<and> http_method h = Scalar m \<and> method_str m = ''POST'' \<longrightarrow> status_code h = 201) \<and>
         (sc = None \<and> http_method h = Scalar m \<and> method_str m = ''DELETE'' \<longrightarrow> status_code h = 204) \<and>
         (\<forall>c. sc = Some c \<and> c \<noteq> 0 \<longrightarrow> status_code h = c)"
  using assms
  by (auto simp add: HTTPRouteHandler_init_def init_status_code_def method_eq_def
        split: sum.splits option.splits)

theorem default_status_code_witness:
  "map_sum id status_code
     (HTTPRouteHandler_init (Single (Member DELETE)) None None None None None (MediaEnum JSON) None None None
        :: error + (nat, nat, nat) HTTPRouteHandler) = Inr 204 \<and>
   map_sum id status_code
     (HTTPRouteHandler_init (Single (Member GET)) None None None None None (MediaEnum JSON) None None (Some 404)
        :: error + (nat, nat, nat) HTTPRouteHandler) = Inr 404"
proof -
  obtain h1 :: "(nat, nat, nat) HTTPRouteHandler" where h1:
    "HTTPRouteHandler_init (Single (Member DELETE)) None None None None None (MediaEnum JSON) None None None = Inr h1"
    by (simp add: HTTPRouteHandler_init_def)
  obtain h2 :: "(nat, nat, nat) HTTPRouteHandler" where h2:
    "HTTPRouteHandler_init (Single (Member GET)) None None None None None (MediaEnum JSON) None None (Some 404) = Inr h2"
    by (simp add: HTTPRouteHandler_init_def)
  have m1: "http_method h1 = Scalar (Str ''DELETE'')"
    using h1 by (auto simp add: HTTPRouteHandler_init_def)
  from default_status_code [OF h1, of "Str ''DELETE''"] m1 have "status_code h1 = 204" by simp
  moreover from default_status_code [OF h2] have "status_code h2 = 404" by simp
  ultimately show ?thesis using h1 h2 by simp
qed

subsection \<open>Redirects\<close>

lemma resolve_after_request_headers:
  "fst (resolve_response_headers (snd (resolve_after_request h))) = fst (resolve_response_headers h)"
  by (simp add: resolve_after_request_def resolve_response_headers_def http_ownership_layers_def
        http_self_layer_def Let_def split: option.splits)

lemma resolve_after_request_status:
  "status_code (snd (resolve_after_request h)) = status_code h"
  by (simp add: resolve_after_request_def Let_def split: option.splits)

lemma resolve_response_headers_status:
  "status_code (snd (resolve_response_headers h)) = status_code h"
  by (simp add: resolve_response_headers_def Let_def split: option.splits)

lemma to_response_redirect:
  "fst (to_response gp eng h (RedirectData path) plugins) =
     Inr (case fst (resolve_after_request h) of
            None \<Rightarrow> RedirectResponse (map (\<lambda>(k, v). (k, header_value v)) (fst (resolve_response_headers h)))
                      (status_code h) path
          | Some f \<Rightarrow> f (RedirectResponse (map (\<lambda>(k, v). (k, header_value v)) (fst (resolve_response_headers h)))
                      (status_code h) path))"
proof -
  obtain a h1 where a: "resolve_after_request h = (a, h1)" by (cases "resolve_after_request h")
  obtain r h2 where r: "resolve_response_headers h1 = (r, h2)" by (cases "resolve_response_headers h1")
  have 1: "r = fst (resolve_response_headers h)"
    using resolve_after_request_headers[of h] a r by simp
  have 2: "status_code h2 = status_code h"
    using resolve_after_request_status[of h] resolve_response_headers_status[of h1] a r by simp
  show ?thesis
    by (simp add: to_response_def a r 1[symmetric] 2 split: option.splits)
qed

text \<open>
  C7, as stated, says that \<open>to_response\<close> of a redirect value is a redirect response to
  the value's path. With an after-request hook in scope the result is what the hook
  returns: the handler below passes validation with status code 302, and its response to
  a redirect to \<open>/target\<close> is the hook's own response.
\<close>

theorem redirect_with_hook_counterexample:
  "http_validate_handler_function hooked_redirect_handler = Inr hooked_redirect_handler \<and>
   fst (to_response no_plugin None hooked_redirect_handler (RedirectData ''/target'') []) =
     Inr (NativeResponse 0)"
  by (simp add: hooked_redirect_handler_def redirect_handler_def root_layer_def
        http_validate_handler_function_def validate_return_class_def REDIRECT_STATUS_CODES_def
        http_methods_def to_response_redirect resolve_after_request_def http_ownership_layers_def
        http_self_layer_def Let_def)

text \<open>
  C7, amended. For a handler whose function is annotated as returning a redirect,
  validation fails with a validation error when the status code is none of 301, 302, 303,
  307 and 308 (so with 200), and passes when it is one of them (so with 302) and the
  parameter rules hold. For a handler that passed, \<open>to_response\<close> of a redirect value
  builds the redirect response to the value's path, with the handler's status code and
  resolved headers; that response is the result when no after-request hook is resolved,
  and otherwise the hook receives it and the hook's result is returned.
\<close>

theorem redirect_validation_and_response:
  assumes "fn h = Some sg" and "return_annotation sg = ClassAnnotation (Some True) f"
  shows "(status_code h \<notin> {301, 302, 303, 307, 308} \<longrightarrow>
            (\<exists>msg. http_validate_handler_function h = Inl (ValidationException msg))) \<and>
         (status_code h \<in> {301, 302, 303, 307, 308} \<and> ''socket'' \<notin> set (parameters sg) \<and>
          \<not> (''data'' \<in> set (parameters sg) \<and> ''GET'' \<in> set (map method_str (http_methods h))) \<longrightarrow>
            (\<exists>h'. http_validate_handler_function h = Inr h' \<and> status_code h' = status_code h)) \<and>
         (\<forall>h'. http_validate_handler_function h = Inr h' \<longrightarrow>
            status_code h' \<in> {301, 302, 303, 307, 308} \<and>
            fst (to_response gp eng h' (RedirectData path) plugins) =
              Inr (case fst (resolve_after_request h') of
                     None \<Rightarrow> RedirectResponse
                       (map (\<lambda>(k, v). (k, header_value v)) (fst (resolve_response_headers h')))
                       (status_code h') path
                   | Some hook \<Rightarrow> hook (RedirectResponse
                       (map (\<lambda>(k, v). (k, header_value v)) (fst (resolve_response_headers h')))
                       (status_code h') path)))"
  using assms
  by (auto simp add: http_validate_handler_function_def validate_return_class_def
        REDIRECT_STATUS_CODES_def http_methods_def to_response_redirect
        split: option.splits if_splits)

theorem redirect_validation_and_response_witness:
  "http_validate_handler_function redirect_handler = Inr redirect_handler \<and>
   fst (to_response no_plugin None redirect_handler (RedirectData ''/target'') []) =
     Inr (RedirectResponse [(''x-root'', 7)] 302 ''/target'') \<and>
   (\<exists>msg. http_validate_handler_function (redirect_handler\<lparr>status_code := 200\<rparr>) =
      Inl (ValidationException msg))"
proof -
  have f: "fn redirect_handler =
      Some \<lparr> parameters = [''request''], return_annotation = ClassAnnotation (Some True) (Some False) \<rparr>"
    by (simp add: redirect_handler_def)
  have f': "fn (redirect_handler\<lparr>status_code := 200\<rparr>) =
      Some \<lparr> parameters = [''request''], return_annotation = ClassAnnotation (Some True) (Some False) \<rparr>"
    by (simp add: redirect_handler_def)
  have v: "http_validate_handler_function redirect_handler = Inr redirect_handler"
    using redirect_validation_and_response [OF f, of "Some False"]
    by (simp add: redirect_handler_def http_methods_def http_validate_handler_function_def
          validate_return_class_def REDIRECT_STATUS_CODES_def)
  have r: "fst (to_response no_plugin None redirect_handler (RedirectData ''/target'') []) =
      Inr (RedirectResponse [(''x-root'', 7)] 302 ''/target'')"
    using redirect_validation_and_response [OF f, of "Some False" no_plugin None "''/target''" "[]"] v
    by (simp add: redirect_handler_def root_layer_def resolve_after_request_def
          resolve_response_headers_def http_ownership_layers_def http_self_layer_def Let_def)
  have e: "\<exists>msg. http_validate_handler_function (redirect_handler\<lparr>status_code := 200\<rparr>) =
      Inl (ValidationException msg)"
    using redirect_validation_and_response [OF f', of "Some False"]
    by (simp add: redirect_handler_def)
  show ?thesis using v r e by simp
qed

subsection \<open>Dependencies\<close>

lemma validate_unique_Inr:
  "validate_dependency_is_unique acc k v = Inr () \<longleftrightarrow> v \<notin> snd ` set acc"
  by (induction acc) (auto split: if_splits)

lemma validate_unique_Inl:
  "validate_dependency_is_unique acc k v = Inl e \<Longrightarrow>
   \<exists>k2. (k2, v) \<in> set acc \<and> e = ImproperlyConfiguredException (provider_defined_message k k2)"
  by (induction acc) (auto split: if_splits)

lemma merge_layer_dependencies_append:
  "merge_layer_dependencies acc (xs @ ys) =
     (case merge_layer_dependencies acc xs of Inl e \<Rightarrow> Inl e | Inr a \<Rightarrow> merge_layer_dependencies a ys)"
  by (induction acc xs rule: merge_layer_dependencies.induct) (auto split: sum.splits)

lemma merge_dependencies_flat:
  "merge_dependencies acc ls = merge_layer_dependencies acc (declarations ls)"
proof (induction ls arbitrary: acc)
  case Nil
  then show ?case by (simp add: declarations_def)
next
  case (Cons l ls)
  then show ?case
    by (simp add: declarations_def layer_declarations_def merge_layer_dependencies_append
          split: sum.splits)
qed

lemma map_of_append_shadowed:
  "k \<in> fst ` set acc \<Longrightarrow> map_of (acc @ (k, v) # xs) = map_of (acc @ xs)"
proof
  fix x
  assume "k \<in> fst ` set acc"
  then obtain w where "map_of acc k = Some w"
    by (metis domD dom_map_of_conv_image_fst)
  then show "map_of (acc @ (k, v) # xs) x = map_of (acc @ xs) x"
    by (cases "x = k") (simp_all add: map_add_def split: option.splits)
qed

lemma merge_layer_dependencies_spec:
  assumes "distinct (map fst acc)" and "distinct (map snd acc)"
  shows "case merge_layer_dependencies acc xs of
           Inr d \<Rightarrow> distinct (map fst d) \<and> distinct (map snd d) \<and> map_of d = map_of (acc @ xs)
         | Inl e \<Rightarrow> \<exists>k1 k2 p. k1 \<noteq> k2 \<and> map_of (acc @ xs) k1 = Some p \<and>
                      map_of (acc @ xs) k2 = Some p \<and>
                      e = ImproperlyConfiguredException (provider_defined_message k1 k2)"
  using assms
proof (induction acc xs rule: merge_layer_dependencies.induct)
  case (1 deps)
  then show ?case by simp
next
  case (2 deps key val items)
  show ?case
  proof (cases "key \<in> set (map fst deps)")
    case True
    then have eq: "map_of (deps @ (key, val) # items) = map_of (deps @ items)"
      using map_of_append_shadowed[of key deps val items] by simp
    have m: "merge_layer_dependencies deps ((key, val) # items) = merge_layer_dependencies deps items"
      using True by simp
    show ?thesis unfolding m eq by (rule 2(1)[OF True 2(3) 2(4)])
  next
    case False
    show ?thesis
    proof (cases "validate_dependency_is_unique deps key val")
      case (Inl e)
      then obtain k2 where k2: "(k2, val) \<in> set deps"
        and e: "e = ImproperlyConfiguredException (provider_defined_message key k2)"
        using validate_unique_Inl[OF Inl] by auto
      have a: "map_of deps k2 = Some val" using k2 2(3) by simp
      have b: "map_of deps key = None" using False by (simp add: map_of_eq_None_iff)
      have ne: "key \<noteq> k2" using k2 False by force
      have A: "map_of (deps @ (key, val) # items) key = Some val"
        using b by (simp add: map_add_def)
      have B: "map_of (deps @ (key, val) # items) k2 = Some val"
        using a by (simp add: map_add_def)
      have m: "merge_layer_dependencies deps ((key, val) # items) = Inl e"
        using False Inl by simp
      have ex: "\<exists>k1 k2 p. k1 \<noteq> k2 \<and> map_of (deps @ (key, val) # items) k1 = Some p \<and>
                  map_of (deps @ (key, val) # items) k2 = Some p \<and>
                  e = ImproperlyConfiguredException (provider_defined_message k1 k2)"
        using A B e ne by blast
      show ?thesis unfolding m sum.case by (rule ex)
    next
      case (Inr u)
      then have nv: "val \<notin> snd ` set deps" using validate_unique_Inr[of deps key val] by simp
      have d1: "distinct (map fst (deps @ [(key, val)]))" using False 2(3) by simp
      have d2: "distinct (map snd (deps @ [(key, val)]))" using nv 2(4) by simp
      have m: "merge_layer_dependencies deps ((key, val) # items) =
          merge_layer_dependencies (deps @ [(key, val)]) items"
        using False Inr by simp
      have eq: "(deps @ [(key, val)]) @ items = deps @ (key, val) # items" by simp
      show ?thesis unfolding m using 2(2)[OF False Inr d1 d2] unfolding eq .
    qed
  qed
qed

lemma distinct_snd_same_key:
  assumes "distinct (map fst d)" "distinct (map snd d)" "map_of d k1 = Some p" "map_of d k2 = Some p"
  shows "k1 = k2"
proof -
  have m: "(k1, p) \<in> set d" "(k2, p) \<in> set d" using assms(3,4) by (auto dest: map_of_SomeD)
  have inj: "inj_on snd (set d)" using assms(2) by (simp add: distinct_map)
  from inj_onD[OF inj, of "(k1, p)" "(k2, p)"] m show ?thesis by simp
qed

lemma merge_dependencies_spec:
  "case merge_dependencies [] ls of
     Inr d \<Rightarrow> distinct (map fst d) \<and> distinct (map snd d) \<and> map_of d = map_of (declarations ls)
   | Inl e \<Rightarrow> \<exists>k1 k2 p. k1 \<noteq> k2 \<and> map_of (declarations ls) k1 = Some p \<and>
                map_of (declarations ls) k2 = Some p \<and>
                e = ImproperlyConfiguredException (provider_defined_message k1 k2)"
  using merge_layer_dependencies_spec[of "[]" "declarations ls"]
  unfolding merge_dependencies_flat append_Nil by simp

lemma resolve_dependencies_fresh:
  assumes "signature_model h \<noteq> None" and "resolved_dependencies h = None"
  shows "fst (resolve_dependencies h) = merge_dependencies [] (ownership_layers h)"
  using assms by (auto simp add: resolve_dependencies_def split: sum.splits)

text \<open>
  C4, as stated, says that two different names declared with equal providers anywhere in
  the chain make \<open>resolve_dependencies\<close> fail. A declaration that a nearer layer
  overrides is never compared: the root below declares the same provider under \<open>a\<close> and
  \<open>b\<close>, the handler declares \<open>a\<close> itself, and the resolution succeeds.
\<close>

theorem shadowed_alias_counterexample:
  "fst (resolve_dependencies redirect_handler) = Inr [(''a'', 1), (''b'', 2)] \<and>
   (''a'', 2) \<in> set (declarations (ownership_layers redirect_handler)) \<and>
   (''b'', 2) \<in> set (declarations (ownership_layers redirect_handler))"
  by (simp add: resolve_dependencies_def redirect_handler_def root_layer_def ownership_layers_def
        self_layer_def declarations_def layer_declarations_def)

text \<open>
  C4, amended. On the first resolution of a handler with a signature model,
  \<open>resolve_dependencies\<close> fails exactly when two different names have equal providers
  in their nearest declarations (the ones that win the merge); the failure is a
  configuration error whose message names two such keys. Otherwise no error is raised.
\<close>

theorem dependency_uniqueness:
  assumes "signature_model h \<noteq> None" and "resolved_dependencies h = None"
  shows "((\<exists>e. fst (resolve_dependencies h) = Inl e) \<longleftrightarrow>
            (\<exists>k1 k2 p. k1 \<noteq> k2 \<and>
               map_of (declarations (ownership_layers h)) k1 = Some p \<and>
               map_of (declarations (ownership_layers h)) k2 = Some p)) \<and>
         (\<forall>e. fst (resolve_dependencies h) = Inl e \<longrightarrow>
            (\<exists>k1 k2 p. k1 \<noteq> k2 \<and>
               map_of (declarations (ownership_layers h)) k1 = Some p \<and>
               map_of (declarations (ownership_layers h)) k2 = Some p \<and>
               e = ImproperlyConfiguredException (provider_defined_message k1 k2)))"
proof -
  let ?D = "declarations (ownership_layers h)"
  have r: "fst (resolve_dependencies h) = merge_dependencies [] (ownership_layers h)"
    using assms by (rule resolve_dependencies_fresh)
  show ?thesis
  proof (cases "merge_dependencies [] (ownership_layers h)")
    case (Inl e)
    with merge_dependencies_spec[of "ownership_layers h"] r show ?thesis by auto
  next
    case (Inr d)
    with merge_dependencies_spec[of "ownership_layers h"]
    have d: "distinct (map fst d)" "distinct (map snd d)" "map_of d = map_of ?D" by simp_all
    have "\<not> (\<exists>k1 k2 p. k1 \<noteq> k2 \<and> map_of ?D k1 = Some p \<and> map_of ?D k2 = Some p)"
      using distinct_snd_same_key[OF d(1) d(2)] d(3) by metis
    with Inr r show ?thesis by simp
  qed
qed

theorem dependency_uniqueness_witness:
  "fst (resolve_dependencies aliased_handler) =
     Inl (ImproperlyConfiguredException
       (''Provider for key a is already defined under the different key b. '' @
        ''If you wish to override a provider, it must have the same key.'')) \<and>
   map_of (declarations (ownership_layers aliased_handler)) ''a'' = Some 2 \<and>
   map_of (declarations (ownership_layers aliased_handler)) ''b'' = Some 2"
proof -
  have s: "signature_model aliased_handler \<noteq> None"
    by (simp add: aliased_handler_def redirect_handler_def)
  have f: "resolved_dependencies aliased_handler = None"
    by (simp add: aliased_handler_def redirect_handler_def)
  have "\<exists>e. fst (resolve_dependencies aliased_handler) = Inl e"
    using dependency_uniqueness [OF s f]
    by (simp add: resolve_dependencies_def aliased_handler_def redirect_handler_def root_layer_def
          ownership_layers_def self_layer_def)
  then show ?thesis
    by (simp add: resolve_dependencies_def aliased_handler_def redirect_handler_def root_layer_def
          ownership_layers_def self_layer_def declarations_def layer_declarations_def
          provider_defined_message_def)
qed

lemma map_of_declarations_near:
  "\<forall>n \<in> set near. map_of (layer_declarations n) k = None \<Longrightarrow>
   map_of (declarations (near @ l # far)) k =
     (case map_of (layer_declarations l) k of Some p \<Rightarrow> Some p | None \<Rightarrow> map_of (declarations far) k)"
  by (induction near) (auto simp add: declarations_def map_add_def split: option.splits)

text \<open>
  C5. When a name is declared at two layers of the chain, the mapping that
  \<open>resolve_dependencies\<close> returns on the first resolution holds, for that name, the
  provider of the nearest layer declaring it, and not a different provider of a farther
  layer.
\<close>

theorem nearest_layer_wins:
  assumes "resolved_dependencies h = None"
    and "fst (resolve_dependencies h) = Inr d"
    and "ownership_layers h = near @ l # far"
    and "\<forall>n \<in> set near. map_of (layer_declarations n) k = None"
    and "map_of (layer_declarations l) k = Some p"
    and "l' \<in> set far" and "map_of (layer_declarations l') k = Some q"
  shows "map_of d k = Some p \<and> (q \<noteq> p \<longrightarrow> map_of d k \<noteq> Some q)"
proof -
  have s: "signature_model h \<noteq> None"
    using assms(2) by (auto simp add: resolve_dependencies_def split: if_splits)
  have "merge_dependencies [] (ownership_layers h) = Inr d"
    using resolve_dependencies_fresh[OF s assms(1)] assms(2) by simp
  with merge_dependencies_spec[of "ownership_layers h"]
  have "map_of d = map_of (declarations (ownership_layers h))" by simp
  then have "map_of d k = Some p"
    using map_of_declarations_near[OF assms(4), of l far] assms(3,5) by simp
  then show ?thesis by simp
qed


theorem nearest_layer_wins_witness:
  "fst (resolve_dependencies redirect_handler) = Inr [(''a'', 1), (''b'', 2)] \<and>
   map_of (layer_declarations (self_layer redirect_handler)) ''a'' = Some 1 \<and>
   map_of (layer_declarations root_layer) ''a'' = Some 2 \<and>
   map_of [(''a'', 1), (''b'', 2)] ''a'' = Some (1::nat) \<and>
   map_of [(''a'', 1), (''b'', 2)] ''a'' \<noteq> Some (2::nat)"
proof -
  have f: "resolved_dependencies redirect_handler = None"
    by (simp add: redirect_handler_def)
  have r: "fst (resolve_dependencies redirect_handler) = Inr [(''a'', 1), (''b'', 2)]"
    by (simp add: resolve_dependencies_def redirect_handler_def root_layer_def ownership_layers_def
          self_layer_def)
  have l: "ownership_layers redirect_handler = [] @ self_layer redirect_handler # [root_layer]"
    by (simp add: ownership_layers_def redirect_handler_def root_layer_def)
  have n: "\<forall>n \<in> set []. map_of (layer_declarations n) ''a'' = None" by simp
  have p: "map_of (layer_declarations (self_layer redirect_handler)) ''a'' = Some 1"
    by (simp add: layer_declarations_def self_layer_def redirect_handler_def)
  have m: "root_layer \<in> set [root_layer]" by simp
  have q: "map_of (layer_declarations root_layer) ''a'' = Some 2"
    by (simp add: layer_declarations_def root_layer_def)
  from nearest_layer_wins [OF f r l n p m q] r p q show ?thesis by simp
qed

subsection \<open>Memoization\<close>

lemma merge_layer_headers_distinct:
  "distinct (map fst acc) \<Longrightarrow> distinct (map fst (merge_layer_headers acc xs))"
  by (induction acc xs rule: merge_layer_headers.induct) auto

lemma merge_headers_distinct:
  "distinct (map fst acc) \<Longrightarrow> distinct (map fst (merge_headers acc ls))"
  by (induction ls arbitrary: acc) (auto simp add: merge_layer_headers_distinct)

lemma resolve_guards_twice:
  "resolve_guards h = (r, h') \<Longrightarrow>
   resolve_guards h' = (r, h') \<and> resolved_guards h' = Some r \<and>
   resolve_guards (h'\<lparr>guards := gs, owner := ow\<rparr>) = (r, h'\<lparr>guards := gs, owner := ow\<rparr>)"
  by (auto simp add: resolve_guards_def Let_def split: option.splits)

lemma resolve_dependencies_twice:
  "resolve_dependencies h = (r, h') \<Longrightarrow>
   resolve_dependencies h' = (r, h') \<and>
   (\<forall>d. r = Inr d \<longrightarrow>
      resolved_dependencies h' = Some d \<and>
      resolve_dependencies (h'\<lparr>dependencies := ds, owner := ow\<rparr>) =
        (Inr d, h'\<lparr>dependencies := ds, owner := ow\<rparr>))"
  by (auto simp add: resolve_dependencies_def split: option.splits sum.splits if_splits)

lemma resolve_dependencies_distinct:
  assumes "resolved_dependencies h = None" and "fst (resolve_dependencies h) = Inr d"
  shows "distinct (map fst d)"
proof -
  have s: "signature_model h \<noteq> None"
    using assms(2) by (auto simp add: resolve_dependencies_def split: if_splits)
  have "merge_dependencies [] (ownership_layers h) = Inr d"
    using resolve_dependencies_fresh[OF s assms(1)] assms(2) by simp
  with merge_dependencies_spec[of "ownership_layers h"] show ?thesis by simp
qed

lemma resolve_response_headers_twice:
  "resolve_response_headers h = (r, h') \<Longrightarrow>
   resolve_response_headers h' = (r, h') \<and> resolved_headers h' = Some r \<and>
   resolve_response_headers (h'\<lparr>response_headers := rh, owner := ow\<rparr>) =
     (r, h'\<lparr>response_headers := rh, owner := ow\<rparr>) \<and>
   (resolved_headers h = None \<longrightarrow> distinct (map fst r))"
  by (auto simp add: resolve_response_headers_def Let_def merge_headers_distinct split: option.splits)

lemma resolve_response_class_twice:
  "resolve_response_class h = (r, h') \<Longrightarrow>
   resolve_response_class h' = (r, h') \<and> resolved_response_class h' = Some r \<and>
   resolve_response_class (h'\<lparr>response_class := rc, owner := ow\<rparr>) =
     (r, h'\<lparr>response_class := rc, owner := ow\<rparr>)"
  by (auto simp add: resolve_response_class_def Let_def split: option.splits)

lemma resolve_before_request_twice:
  "resolve_before_request h = (r, h') \<Longrightarrow>
   resolve_before_request h' = (r, h') \<and> resolved_before_request h' = Some r \<and>
   resolve_before_request (h'\<lparr>before_request := bq, owner := ow\<rparr>) =
     (r, h'\<lparr>before_request := bq, owner := ow\<rparr>)"
  by (auto simp add: resolve_before_request_def Let_def split: option.splits)

lemma resolve_after_request_twice:
  "resolve_after_request h = (r, h') \<Longrightarrow>
   resolve_after_request h' = (r, h') \<and> resolved_after_request h' = Some r \<and>
   resolve_after_request (h'\<lparr>after_request := aq, owner := ow\<rparr>) =
     (r, h'\<lparr>after_request := aq, owner := ow\<rparr>)"
  by (auto simp add: resolve_after_request_def Let_def split: option.splits)

text \<open>
  C9. For each of the six resolvers, in any state of the handler: a second call returns what
  the first returned and leaves the handler as the first call left it; a value that was
  returned is then in the memoized slot, and the second call returns it without reading
  the layers again (it returns the same after the handler's own attribute and its owner
  are replaced); the names of the merged dependencies and headers are distinct.
\<close>

theorem resolvers_memoized:
  fixes h :: "('g, 'p, 'o, 'z) HTTPRouteHandler_scheme"
  shows
  "(case resolve_guards h of (r, h') \<Rightarrow>
      resolve_guards h' = (r, h') \<and> resolved_guards h' = Some r \<and>
      resolve_guards (h'\<lparr>guards := gs, owner := ow\<rparr>) = (r, h'\<lparr>guards := gs, owner := ow\<rparr>)) \<and>
   (case resolve_dependencies h of (r, h') \<Rightarrow>
      resolve_dependencies h' = (r, h') \<and>
      (\<forall>d. r = Inr d \<longrightarrow>
         resolved_dependencies h' = Some d \<and>
         resolve_dependencies (h'\<lparr>dependencies := ds, owner := ow\<rparr>) =
           (Inr d, h'\<lparr>dependencies := ds, owner := ow\<rparr>) \<and>
         (resolved_dependencies h = None \<longrightarrow> distinct (map fst d)))) \<and>
   (case resolve_response_headers h of (r, h') \<Rightarrow>
      resolve_response_headers h' = (r, h') \<and> resolved_headers h' = Some r \<and>
      resolve_response_headers (h'\<lparr>response_headers := rh, owner := ow\<rparr>) =
        (r, h'\<lparr>response_headers := rh, owner := ow\<rparr>) \<and>
      (resolved_headers h = None \<longrightarrow> distinct (map fst r))) \<and>
   (case resolve_response_class h of (r, h') \<Rightarrow>
      resolve_response_class h' = (r, h') \<and> resolved_response_class h' = Some r \<and>
      resolve_response_class (h'\<lparr>response_class := rc, owner := ow\<rparr>) =
        (r, h'\<lparr>response_class := rc, owner := ow\<rparr>)) \<and>
   (case resolve_before_request h of (r, h') \<Rightarrow>
      resolve_before_request h' = (r, h') \<and> resolved_before_request h' = Some r \<and>
      resolve_before_request (h'\<lparr>before_request := bq, owner := ow\<rparr>) =
        (r, h'\<lparr>before_request := bq, owner := ow\<rparr>)) \<and>
   (case resolve_after_request h of (r, h') \<Rightarrow>
      resolve_after_request h' = (r, h') \<and> resolved_after_request h' = Some r \<and>
      resolve_after_request (h'\<lparr>after_request := aq, owner := ow\<rparr>) =
        (r, h'\<lparr>after_request := aq, owner := ow\<rparr>))"
proof -
  have g: "case resolve_guards h of (r, h') \<Rightarrow>
      resolve_guards h' = (r, h') \<and> resolved_guards h' = Some r \<and>
      resolve_guards (h'\<lparr>guards := gs, owner := ow\<rparr>) = (r, h'\<lparr>guards := gs, owner := ow\<rparr>)"
    using resolve_guards_twice[of h] by (cases "resolve_guards h") simp
  have d: "case resolve_dependencies h of (r, h') \<Rightarrow>
      resolve_dependencies h' = (r, h') \<and>
      (\<forall>d. r = Inr d \<longrightarrow>
         resolved_dependencies h' = Some d \<and>
         resolve_dependencies (h'\<lparr>dependencies := ds, owner := ow\<rparr>) =
           (Inr d, h'\<lparr>dependencies := ds, owner := ow\<rparr>) \<and>
         (resolved_dependencies h = None \<longrightarrow> distinct (map fst d)))"
    using resolve_dependencies_twice[of h] resolve_dependencies_distinct[of h]
    by (cases "resolve_dependencies h") simp
  have hd: "case resolve_response_headers h of (r, h') \<Rightarrow>
      resolve_response_headers h' = (r, h') \<and> resolved_headers h' = Some r \<and>
      resolve_response_headers (h'\<lparr>response_headers := rh, owner := ow\<rparr>) =
        (r, h'\<lparr>response_headers := rh, owner := ow\<rparr>) \<and>
      (resolved_headers h = None \<longrightarrow> distinct (map fst r))"
    using resolve_response_headers_twice[of h] by (cases "resolve_response_headers h") simp
  have c: "case resolve_response_class h of (r, h') \<Rightarrow>
      resolve_response_class h' = (r, h') \<and> resolved_response_class h' = Some r \<and>
      resolve_response_class (h'\<lparr>response_class := rc, owner := ow\<rparr>) =
        (r, h'\<lparr>response_class := rc, owner := ow\<rparr>)"
    using resolve_response_class_twice[of h] by (cases "resolve_response_class h") simp
  have b: "case resolve_before_request h of (r, h') \<Rightarrow>
      resolve_before_request h' = (r, h') \<and> resolved_before_request h' = Some r \<and>
      resolve_before_request (h'\<lparr>before_request := bq, owner := ow\<rparr>) =
        (r, h'\<lparr>before_request := bq, owner := ow\<rparr>)"
    using resolve_before_request_twice[of h] by (cases "resolve_before_request h") simp
  have a: "case resolve_after_request h of (r, h') \<Rightarrow>
      resolve_after_request h' = (r, h') \<and> resolved_after_request h' = Some r \<and>
      resolve_after_request (h'\<lparr>after_request := aq, owner := ow\<rparr>) =
        (r, h'\<lparr>after_request := aq, owner := ow\<rparr>)"
    using resolve_after_request_twice[of h] by (cases "resolve_after_request h") simp
  from g d hd c b a show ?thesis by (intro conjI)
qed

theorem resolvers_memoized_witness:
  "fst (resolve_guards (snd (resolve_guards redirect_handler))) = [4, 3, 2, 1] \<and>
   fst (resolve_guards redirect_handler) = [4, 3, 2, 1] \<and>
   fst (resolve_dependencies (snd (resolve_dependencies redirect_handler))) = Inr [(''a'', 1), (''b'', 2)] \<and>
   fst (resolve_dependencies redirect_handler) = Inr [(''a'', 1), (''b'', 2)] \<and>
   fst (resolve_response_headers (snd (resolve_response_headers redirect_handler))) =
     [(''x-root'', ResponseHeader 7)] \<and>
   fst (resolve_response_class (snd (resolve_response_class redirect_handler))) = Response \<and>
   fst (resolve_before_request (snd (resolve_before_request redirect_handler))) = None \<and>
   fst (resolve_after_request (snd (resolve_after_request hooked_redirect_handler))) =
     fst (resolve_after_request hooked_redirect_handler)"
  using resolvers_memoized [where h = redirect_handler] resolvers_memoized [where h = hooked_redirect_handler]
  by (simp add: redirect_handler_def hooked_redirect_handler_def root_layer_def
        resolve_guards_def resolve_dependencies_def resolve_response_headers_def
        resolve_response_class_def resolve_before_request_def resolve_after_request_def
        ownership_layers_def self_layer_def http_ownership_layers_def http_self_layer_def Let_def)

end
